theory Spec2Isabelle
  imports Complex_Main "HOL-Library.Word" "HOL-Library.Char_ord" "HOL-Library.List_Lexorder"
begin

section \<open>The external scene, as AssimpImporter.cpp reads it\<close>

text \<open>
  The importer of \<^verbatim>\<open>Source/Falcor/Scene/Importers/AssimpImporter.cpp\<close> walks an Assimp
  scene and feeds a scene builder. Assimp's structs are records here, with a C array and
  its count as one list. Floating-point numbers are real numbers (no rounding); the one
  place where the result of a float operation is not a number, a division by zero, is
  written out as a value of \<open>fval\<close>. A pointer to a node is the node's address, a natural
  number.
\<close>

type_synonym mat4 = "real list"
type_synonym aiVector3D = "real \<times> real \<times> real"
type_synonym aiQuaternion = "real \<times> real \<times> real \<times> real"
type_synonym float3 = "real \<times> real \<times> real"
type_synonym quat = "real \<times> real \<times> real \<times> real"
type_synonym NodeID = "32 word"
type_synonym MeshID = nat

record aiVertexWeight =
  mVertexId :: nat
  mWeight :: real

record aiBone =
  mName :: string
  mWeights :: "aiVertexWeight list"
  mOffsetMatrix :: mat4

record aiMesh =
  mName :: string
  mNumVertices :: nat
  mFaces :: "nat list list"
  mBones :: "aiBone list"
  mMaterialIndex :: nat

datatype aiNode =
  AiNode (ptr: nat) (mName: string) (mTransformation: mat4) (mMeshes: "nat list")
    (mChildren: "aiNode list")

record 'v aiKey =
  mTime :: real
  mValue :: 'v

record aiNodeAnim =
  mNodeName :: string
  mPositionKeys :: "aiVector3D aiKey list"
  mRotationKeys :: "aiQuaternion aiKey list"
  mScalingKeys :: "aiVector3D aiKey list"

record aiAnimation =
  mDuration :: real
  mTicksPerSecond :: real
  mChannels :: "aiNodeAnim list"
  mNumMeshChannels :: nat

text \<open>The scene: the node tree, the meshes and the animations. Materials, cameras,
  lights and embedded textures (but for their number) are not part of the model.\<close>

record aiScene =
  mRootNode :: aiNode
  mMeshes :: "aiMesh list"
  mAnimations :: "aiAnimation list"
  mNumTextures :: nat

datatype ImportMode = Default | OBJ | GLTF2

datatype warning =
    MeshHasNoFaces string
  | MeshNotTriangle string
  | TooManyBones
  | EmbeddedTextures nat

datatype error =
    AssertionFailed
  | OutOfRange
  | OutOfBounds
  | BoneMultipleInstances string
  | BoneDifferentWorldMatrices string

section \<open>The scene builder and the importer's data\<close>

text \<open>Modelled from the spec: \<^verbatim>\<open>NodeID::kInvalidID\<close> is declared outside the repository; it
  is the reserved identifier no node has, the greatest 32-bit value.\<close>

definition kInvalidID :: NodeID where
  "kInvalidID = - 1"

text \<open>Modelled from the spec: \<^verbatim>\<open>Scene::kMaxBonesPerVertex\<close> is declared outside the
  repository; the fixed maximum of influences of a vertex, the width of a
  \<^verbatim>\<open>float4\<close> and of a \<^verbatim>\<open>uint4\<close>.\<close>

definition kMaxBonesPerVertex :: nat where
  "kMaxBonesPerVertex = 4"

text \<open>Modelled from the spec: \<^verbatim>\<open>rmcv::mat4()\<close>, the default matrix, is the identity.\<close>

definition mat4_identity :: mat4 where
  "mat4_identity = [1, 0, 0, 0,  0, 1, 0, 0,  0, 0, 1, 0,  0, 0, 0, 1]"

record Node =
  name :: string
  parent :: NodeID
  transform :: mat4
  localToBindPose :: mat4

record Keyframe =
  time :: real
  translation :: float3
  scaling :: float3
  rotation :: quat

record Animation =
  animName :: string
  animNodeID :: NodeID
  animDuration :: real
  keyframes :: "Keyframe list"

text \<open>Modelled from the spec: the scene builder is declared outside the repository. It is
  append-only: registering a node or a processed mesh appends it and returns its
  position as the new identifier; a mesh instance and an animation are appended.\<close>

record 'pm SceneBuilder =
  sbNodes :: "Node list"
  sbMeshes :: "'pm list"
  sbMeshInstances :: "(NodeID \<times> MeshID) list"
  sbAnimations :: "Animation list"

definition addNode :: "Node \<Rightarrow> 'pm SceneBuilder \<Rightarrow> NodeID \<times> 'pm SceneBuilder" where
  "addNode n b = (word_of_nat (length (sbNodes b)), b\<lparr>sbNodes := sbNodes b @ [n]\<rparr>)"

definition addProcessedMesh :: "'pm \<Rightarrow> 'pm SceneBuilder \<Rightarrow> MeshID \<times> 'pm SceneBuilder" where
  "addProcessedMesh mesh b = (length (sbMeshes b), b\<lparr>sbMeshes := sbMeshes b @ [mesh]\<rparr>)"

definition addMeshInstance :: "NodeID \<Rightarrow> MeshID \<Rightarrow> 'pm SceneBuilder \<Rightarrow> 'pm SceneBuilder" where
  "addMeshInstance nodeID meshID b = b\<lparr>sbMeshInstances := sbMeshInstances b @ [(nodeID, meshID)]\<rparr>"

definition addAnimation :: "Animation \<Rightarrow> 'pm SceneBuilder \<Rightarrow> 'pm SceneBuilder" where
  "addAnimation pAnimation b = b\<lparr>sbAnimations := sbAnimations b @ [pAnimation]\<rparr>"

text \<open>The class \<^verbatim>\<open>ImporterData\<close> (lines 143-198), without the scene pointer, which the
  functions below take beside it. The two private maps are fields like the others.\<close>

record 'pm ImporterData =
  builder :: "'pm SceneBuilder"
  meshMap :: "nat \<rightharpoonup> MeshID"
  modelInstances :: "mat4 list"
  localToBindPoseMatrices :: "string \<rightharpoonup> mat4"
  mAiToFalcorNodeID :: "nat \<rightharpoonup> NodeID"
  mAiNodes :: "string \<rightharpoonup> nat list"

text \<open>\<^verbatim>\<open>std::map::at\<close> throws \<^verbatim>\<open>std::out_of_range\<close> on a missing key.\<close>

definition getFalcorNodeID_ptr :: "'pm ImporterData \<Rightarrow> nat \<Rightarrow> error + NodeID" where
  "getFalcorNodeID_ptr data pNode =
     (case mAiToFalcorNodeID data pNode of None \<Rightarrow> Inl OutOfRange | Some i \<Rightarrow> Inr i)"

text \<open>The overload by name and index catches every exception and answers the invalid
  identifier. The vector is indexed unchecked, so an index past its end is not an
  exception: it is the outcome \<open>OutOfBounds\<close> here.\<close>

definition getFalcorNodeID :: "'pm ImporterData \<Rightarrow> string \<Rightarrow> nat \<Rightarrow> error + NodeID" where
  "getFalcorNodeID data aiNodeName index' =
     (case mAiNodes data aiNodeName of
        None \<Rightarrow> Inr kInvalidID
      | Some ps \<Rightarrow>
          if index' < length ps
          then (case getFalcorNodeID_ptr data (ps ! index') of
                  Inl e \<Rightarrow> Inr kInvalidID
                | Inr i \<Rightarrow> Inr i)
          else Inl OutOfBounds)"

definition getNodeInstanceCount :: "'pm ImporterData \<Rightarrow> string \<Rightarrow> error + nat" where
  "getNodeInstanceCount data nodeName =
     (case mAiNodes data nodeName of None \<Rightarrow> Inl OutOfRange | Some ps \<Rightarrow> Inr (length ps))"

text \<open>\<^verbatim>\<open>FALCOR_ASSERT\<close> is a macro declared outside the repository; whether it is
  compiled in is the parameter \<open>asserts\<close> of every function that uses it. A failed
  assertion ends the import.\<close>

definition FALCOR_ASSERT :: "bool \<Rightarrow> bool \<Rightarrow> error + unit" where
  "FALCOR_ASSERT asserts cond = (if asserts \<and> \<not> cond then Inl AssertionFailed else Inr ())"

text \<open>A loop whose body can fail: the first failure ends it.\<close>

fun foldE :: "('a \<Rightarrow> 's \<Rightarrow> error + 's) \<Rightarrow> 'a list \<Rightarrow> 's \<Rightarrow> error + 's" where
  "foldE f [] s = Inr s"
| "foldE f (x # xs) s = (case f x s of Inl e \<Rightarrow> Inl e | Inr s' \<Rightarrow> foldE f xs s')"

section \<open>Mesh filter (createMeshes, lines 526-540)\<close>

text \<open>Modelled from the spec: Assimp's \<^verbatim>\<open>aiMesh::HasFaces\<close> is declared outside the
  repository; the mesh has at least one face.\<close>

definition HasFaces :: "aiMesh \<Rightarrow> bool" where
  "HasFaces pMesh = (mFaces pMesh \<noteq> [])"

text \<open>The loop over \<^verbatim>\<open>pScene->mMeshes\<close>: \<^verbatim>\<open>pMesh->mFaces->mNumIndices\<close> is the index
  count of the first face. The warnings logged and the vector \<^verbatim>\<open>meshes\<close> are the accumulators.\<close>

fun filterMeshes :: "aiMesh list \<Rightarrow> warning list \<Rightarrow> aiMesh list \<Rightarrow> warning list \<times> aiMesh list" where
  "filterMeshes [] warns meshes = (warns, meshes)"
| "filterMeshes (pMesh # rest) warns meshes =
     (if \<not> HasFaces pMesh
      then filterMeshes rest (warns @ [MeshHasNoFaces (aiMesh.mName pMesh)]) meshes
      else if length (hd (mFaces pMesh)) \<noteq> 3
      then filterMeshes rest (warns @ [MeshNotTriangle (aiMesh.mName pMesh)]) meshes
      else filterMeshes rest warns (meshes @ [pMesh]))"

text \<open>The two checks of the loop, as one predicate on a mesh.\<close>

definition passesFilter :: "aiMesh \<Rightarrow> bool" where
  "passesFilter pMesh = (mFaces pMesh \<noteq> [] \<and> length (hd (mFaces pMesh)) = 3)"

definition filterWarning :: "aiMesh \<Rightarrow> warning" where
  "filterWarning pMesh =
     (if mFaces pMesh = [] then MeshHasNoFaces (aiMesh.mName pMesh)
      else MeshNotTriangle (aiMesh.mName pMesh))"



section \<open>Skin weights (loadBones, lines 460-519)\<close>

text \<open>The result of a float division: a number, or what IEEE 754 gives for a division by
  zero. Every other float operation is the operation on real numbers.\<close>

datatype fval = Finite real | PosInf | NegInf | NaN

definition fdiv :: "real \<Rightarrow> real \<Rightarrow> fval" where
  "fdiv x y =
     (if y \<noteq> 0 then Finite (x / y)
      else if x = 0 then NaN
      else if 0 < x then PosInf else NegInf)"

text \<open>A \<^verbatim>\<open>float4\<close> and a \<^verbatim>\<open>uint4\<close> are lists of four entries. The state of
  \<^verbatim>\<open>loadBones\<close> is the warnings logged so far and the two vectors it fills.\<close>

type_synonym float4 = "real list"

type_synonym uint4 = "NodeID list"

type_synonym skin = "warning list \<times> float4 list \<times> uint4 list"

text \<open>The search for the next unused slot (lines 492-502), from slot \<open>j\<close> on: the answer
  is \<^verbatim>\<open>emptySlotFound\<close> and the two slot arrays of the vertex.\<close>

function assignSlot :: "nat \<Rightarrow> NodeID \<Rightarrow> real \<Rightarrow> uint4 \<Rightarrow> float4 \<Rightarrow> bool \<times> uint4 \<times> float4" where
  "assignSlot j aiBoneID w vertexIds vertexWeights =
     (if j < kMaxBonesPerVertex
      then (if vertexIds ! j = kInvalidID
            then (True, vertexIds[j := aiBoneID], vertexWeights[j := w])
            else assignSlot (Suc j) aiBoneID w vertexIds vertexWeights)
      else (False, vertexIds, vertexWeights))"
  by pat_completeness auto

termination
  by (relation "measure (\<lambda>(j, _). kMaxBonesPerVertex - j)") auto

declare assignSlot.simps [simp del]

text \<open>The body of the loop over a bone's weights (lines 481-507). The two vectors are
  indexed unchecked: a vertex index past their end is the outcome \<open>OutOfBounds\<close>.\<close>

definition applyWeight :: "NodeID \<Rightarrow> aiVertexWeight \<Rightarrow> skin \<Rightarrow> error + skin" where
  "applyWeight aiBoneID aiWeight st =
     (case st of (warns, weights, ids) \<Rightarrow>
        if mWeight aiWeight = 0 then Inr st
        else if length ids \<le> mVertexId aiWeight \<or> length weights \<le> mVertexId aiWeight
        then Inl OutOfBounds
        else (case assignSlot 0 aiBoneID (mWeight aiWeight)
                     (ids ! mVertexId aiWeight) (weights ! mVertexId aiWeight) of
                (emptySlotFound, vertexIds, vertexWeights) \<Rightarrow>
                  Inr (if emptySlotFound then warns else warns @ [TooManyBones],
                       weights[mVertexId aiWeight := vertexWeights],
                       ids[mVertexId aiWeight := vertexIds])))"

text \<open>The body of the loop over the bones (lines 473-508). The asserted expression is
  evaluated only when assertions are compiled in; it calls \<^verbatim>\<open>std::map::at\<close>.\<close>

definition loadBone :: "bool \<Rightarrow> 'pm ImporterData \<Rightarrow> aiBone \<Rightarrow> skin \<Rightarrow> error + skin" where
  "loadBone asserts data pAiBone st =
     (case (if asserts
            then (case getNodeInstanceCount data (aiBone.mName pAiBone) of
                    Inl e \<Rightarrow> Inl e
                  | Inr n \<Rightarrow> FALCOR_ASSERT asserts (n = 1))
            else Inr ()) of
        Inl e \<Rightarrow> Inl e
      | Inr u \<Rightarrow>
          (case getFalcorNodeID data (aiBone.mName pAiBone) 0 of
             Inl e \<Rightarrow> Inl e
           | Inr aiBoneID \<Rightarrow> foldE (applyWeight aiBoneID) (mWeights pAiBone) st))"

text \<open>The body of the last loop (lines 514-517): \<^verbatim>\<open>w /= f\<close> divides every entry by the
  sum of the slots.\<close>

definition normalizeWeights :: "float4 \<Rightarrow> fval list" where
  "normalizeWeights w =
     (let f = foldl (\<lambda>f j. f + w ! j) 0 [0..<kMaxBonesPerVertex]
      in map (\<lambda>x. fdiv x f) w)"

definition loadBones :: "bool \<Rightarrow> aiMesh \<Rightarrow> 'pm ImporterData \<Rightarrow> error + (warning list \<times> fval list list \<times> uint4 list)" where
  "loadBones asserts pAiMesh data =
     (let vertexCount = mNumVertices pAiMesh;
          weights = replicate vertexCount (replicate 4 0);
          ids = replicate vertexCount (replicate 4 kInvalidID)
      in case foldE (loadBone asserts data) (mBones pAiMesh) ([], weights, ids) of
           Inl e \<Rightarrow> Inl e
         | Inr (warns, weights', ids') \<Rightarrow> Inr (warns, map normalizeWeights weights', ids'))"

text \<open>A skinned mesh of two vertices and two bones: both bones weight vertex 0, no bone
  weights vertex 1.\<close>

definition skinData :: "unit ImporterData" where
  "skinData = \<lparr> builder = \<lparr> sbNodes = [], sbMeshes = [], sbMeshInstances = [], sbAnimations = [] \<rparr>,
     meshMap = Map.empty, modelInstances = [], localToBindPoseMatrices = Map.empty,
     mAiToFalcorNodeID = [7 \<mapsto> 5, 8 \<mapsto> 6],
     mAiNodes = [''arm'' \<mapsto> [7], ''hand'' \<mapsto> [8]] \<rparr>"

definition skinMesh :: aiMesh where
  "skinMesh = \<lparr> aiMesh.mName = ''skin'', mNumVertices = 2, mFaces = [[0, 1, 1]],
     mBones = [\<lparr> aiBone.mName = ''arm'',
                 mWeights = [\<lparr> mVertexId = 0, mWeight = 1 \<rparr>, \<lparr> mVertexId = 1, mWeight = 0 \<rparr>],
                 mOffsetMatrix = mat4_identity \<rparr>,
               \<lparr> aiBone.mName = ''hand'', mWeights = [\<lparr> mVertexId = 0, mWeight = 3 \<rparr>],
                 mOffsetMatrix = mat4_identity \<rparr>],
     mMaterialIndex = 0 \<rparr>"



section \<open>Processing and committing the meshes (createMeshes, lines 542-616)\<close>

text \<open>The parallel loop (lines 545-605) runs one task for every index of the vector
  \<^verbatim>\<open>meshes\<close>; task \<open>i\<close> writes slot \<open>i\<close> of \<^verbatim>\<open>processedMeshes\<close> and nothing else. The
  order in which the tasks complete is the list \<open>sched\<close>. A task that fails ends the
  import.\<close>

fun for_each_par :: "nat list \<Rightarrow> (nat \<Rightarrow> error + 'pm) \<Rightarrow> 'pm list \<Rightarrow> error + 'pm list" where
  "for_each_par [] task processedMeshes = Inr processedMeshes"
| "for_each_par (i # sched) task processedMeshes =
     (case task i of
        Inl e \<Rightarrow> Inl e
      | Inr pm \<Rightarrow> for_each_par sched task (processedMeshes[i := pm]))"

text \<open>The sequential loop that adds the meshes to the scene (lines 610-615): the counter
  \<open>i\<close> is the position in \<^verbatim>\<open>processedMeshes\<close>.\<close>

fun commitMeshes :: "'pm list \<Rightarrow> nat \<Rightarrow> 'pm ImporterData \<Rightarrow> 'pm ImporterData" where
  "commitMeshes [] i data = data"
| "commitMeshes (mesh # rest) i data =
     (case addProcessedMesh mesh (builder data) of
        (meshID, b) \<Rightarrow>
          commitMeshes rest (Suc i)
            (data\<lparr>builder := b, meshMap := (meshMap data)(i \<mapsto> meshID)\<rparr>))"

text \<open>\<^verbatim>\<open>createMeshes\<close>. What a task computes from its mesh (lines 546-604, ending in the
  builder's \<^verbatim>\<open>processMesh\<close>, which is declared outside the repository) is the parameter
  \<open>processMesh\<close>; \<open>pm0\<close> is a default-constructed processed mesh.\<close>

definition createMeshes ::
  "nat list \<Rightarrow> (aiMesh \<Rightarrow> error + 'pm) \<Rightarrow> 'pm \<Rightarrow> aiScene \<Rightarrow> 'pm ImporterData
     \<Rightarrow> error + (warning list \<times> 'pm ImporterData)" where
  "createMeshes sched processMesh pm0 pScene data =
     (case filterMeshes (aiScene.mMeshes pScene) [] [] of
        (warns, meshes) \<Rightarrow>
          (case for_each_par sched (\<lambda>i. processMesh (meshes ! i))
                  (replicate (length meshes) pm0) of
             Inl e \<Rightarrow> Inl e
           | Inr processedMeshes \<Rightarrow> Inr (warns, commitMeshes processedMeshes 0 data)))"

section \<open>Attaching mesh instances (addMeshInstances, lines 715-747)\<close>

text \<open>Modelled from the spec: \<^verbatim>\<open>to_string\<close> of a node identifier is declared outside the
  repository; the name of an instance node is made from the node's identifier and the
  instance index, both printed in decimal as \<^verbatim>\<open>std::to_string\<close> does.\<close>

function to_string :: "nat \<Rightarrow> string" where
  "to_string n =
     (if n < 10 then [''0123456789'' ! n]
      else to_string (n div 10) @ [''0123456789'' ! (n mod 10)])"
  by pat_completeness auto

termination
  by (relation "measure (\<lambda>n. n)") auto

declare to_string.simps [simp del]

definition instanceNode :: "NodeID \<Rightarrow> nat \<Rightarrow> mat4 \<Rightarrow> Node" where
  "instanceNode nodeID instance m =
     \<lparr> name = ''Node'' @ to_string (unat nodeID) @ ''.instance'' @ to_string instance,
       parent = nodeID, transform = m, localToBindPose = mat4_identity \<rparr>"

text \<open>The loop over \<^verbatim>\<open>data.modelInstances\<close> (lines 724-737), from index \<open>instance\<close> on.\<close>

fun addInstances ::
  "nat \<Rightarrow> mat4 list \<Rightarrow> NodeID \<Rightarrow> MeshID \<Rightarrow> 'pm SceneBuilder \<Rightarrow> 'pm SceneBuilder" where
  "addInstances instance [] nodeID meshID b = b"
| "addInstances instance (m # rest) nodeID meshID b =
     (if m \<noteq> mat4_identity
      then (case addNode (instanceNode nodeID instance m) b of
              (instanceNodeID, b') \<Rightarrow>
                addInstances (Suc instance) rest nodeID meshID
                  (addMeshInstance instanceNodeID meshID b'))
      else addInstances (Suc instance) rest nodeID meshID (addMeshInstance nodeID meshID b))"

text \<open>The body of the loop over a node's mesh references (lines 720-739).\<close>

definition addInstancesOfMesh :: "NodeID \<Rightarrow> nat \<Rightarrow> 'pm ImporterData \<Rightarrow> error + 'pm ImporterData" where
  "addInstancesOfMesh nodeID mesh data =
     (case meshMap data mesh of
        None \<Rightarrow> Inl OutOfRange
      | Some meshID \<Rightarrow>
          if modelInstances data \<noteq> []
          then Inr (data\<lparr>builder :=
                 addInstances 0 (modelInstances data) nodeID meshID (builder data)\<rparr>)
          else Inr (data\<lparr>builder := addMeshInstance nodeID meshID (builder data)\<rparr>))"

fun addMeshInstances :: "'pm ImporterData \<Rightarrow> aiNode \<Rightarrow> error + 'pm ImporterData"
  and visitChildren :: "'pm ImporterData \<Rightarrow> aiNode list \<Rightarrow> error + 'pm ImporterData" where
  "addMeshInstances data (AiNode p nm tr ms cs) =
     (case getFalcorNodeID_ptr data p of
        Inl e \<Rightarrow> Inl e
      | Inr nodeID \<Rightarrow>
          (case foldE (addInstancesOfMesh nodeID) ms data of
             Inl e \<Rightarrow> Inl e
           | Inr data' \<Rightarrow> visitChildren data' cs))"
| "visitChildren data [] = Inr data"
| "visitChildren data (c # cs) =
     (case addMeshInstances data c of
        Inl e \<Rightarrow> Inl e
      | Inr data' \<Rightarrow> visitChildren data' cs)"

text \<open>A scene of three meshes, the first without faces, and a root node that references
  the mesh of index \<open>k\<close>. The processed mesh is the mesh's name here.\<close>

definition triMesh :: "string \<Rightarrow> aiMesh" where
  "triMesh nm = \<lparr> aiMesh.mName = nm, mNumVertices = 3, mFaces = [[0, 1, 2]], mBones = [],
     mMaterialIndex = 0 \<rparr>"

definition emptyMesh :: aiMesh where
  "emptyMesh = \<lparr> aiMesh.mName = ''empty'', mNumVertices = 0, mFaces = [], mBones = [],
     mMaterialIndex = 0 \<rparr>"

definition shiftScene :: "nat \<Rightarrow> aiScene" where
  "shiftScene k = \<lparr> mRootNode = AiNode 100 ''root'' mat4_identity [k] [],
     mMeshes = [emptyMesh, triMesh ''first'', triMesh ''second''], mAnimations = [],
     mNumTextures = 0 \<rparr>"

definition emptyBuilder :: "'pm SceneBuilder" where
  "emptyBuilder = \<lparr> sbNodes = [], sbMeshes = [], sbMeshInstances = [], sbAnimations = [] \<rparr>"

definition shiftData :: "string ImporterData" where
  "shiftData = \<lparr> builder = emptyBuilder, meshMap = Map.empty, modelInstances = [],
     localToBindPoseMatrices = Map.empty, mAiToFalcorNodeID = [100 \<mapsto> 0],
     mAiNodes = [''root'' \<mapsto> [100]] \<rparr>"

text \<open>\<^verbatim>\<open>createMeshes\<close> followed by \<^verbatim>\<open>addMeshInstances\<close> on the root, as \<^verbatim>\<open>import\<close> calls
  them (lines 1055-1056).\<close>

definition createMeshes_then_instances ::
  "nat list \<Rightarrow> (aiMesh \<Rightarrow> error + 'pm) \<Rightarrow> 'pm \<Rightarrow> aiScene \<Rightarrow> 'pm ImporterData
     \<Rightarrow> error + 'pm ImporterData" where
  "createMeshes_then_instances sched processMesh pm0 pScene data =
     (case createMeshes sched processMesh pm0 pScene data of
        Inl e \<Rightarrow> Inl e
      | Inr (warns, data') \<Rightarrow> addMeshInstances data' (mRootNode pScene))"

text \<open>The number of transforms of a list that are not the identity, and the number of
  mesh references in a node tree.\<close>

definition nonIdentity :: "mat4 list \<Rightarrow> nat" where
  "nonIdentity ms = length (filter (\<lambda>m. m \<noteq> mat4_identity) ms)"





section \<open>Validation (validateBones, lines 928-998)\<close>

text \<open>A \<^verbatim>\<open>BoneMeshMap\<close> is a \<^verbatim>\<open>std::map\<close> from a bone's name to the indices of the meshes
  that have a bone of that name. It is the list of its entries in the order the map
  iterates them, by ascending key; \<^verbatim>\<open>boneMap[name].push_back(meshID)\<close> is
  \<open>boneMap_push_back\<close>.\<close>

type_synonym BoneMeshMap = "(string \<times> nat list) list"

fun boneMap_push_back :: "string \<Rightarrow> nat \<Rightarrow> BoneMeshMap \<Rightarrow> BoneMeshMap" where
  "boneMap_push_back k v [] = [(k, [v])]"
| "boneMap_push_back k v ((k', vs) # rest) =
     (if k = k' then (k', vs @ [v]) # rest
      else if k < k' then (k, [v]) # (k', vs) # rest
      else (k', vs) # boneMap_push_back k v rest)"

definition createBoneMap :: "aiScene \<Rightarrow> BoneMeshMap" where
  "createBoneMap pScene =
     fold (\<lambda>(meshID, pMesh) boneMap.
             fold (\<lambda>pBone boneMap. boneMap_push_back (aiBone.mName pBone) meshID boneMap)
               (mBones pMesh) boneMap)
       (enumerate 0 (aiScene.mMeshes pScene)) []"

text \<open>A \<^verbatim>\<open>MeshInstanceList\<close> holds, for every mesh index, the nodes that reference the
  mesh. The vector is indexed unchecked by a node's mesh index.\<close>

type_synonym MeshInstanceList = "aiNode list list"

definition pushInstance :: "aiNode \<Rightarrow> nat \<Rightarrow> MeshInstanceList \<Rightarrow> error + MeshInstanceList" where
  "pushInstance pNode m meshInstances =
     (if m < length meshInstances
      then Inr (meshInstances[m := meshInstances ! m @ [pNode]])
      else Inl OutOfBounds)"

fun countNodeMeshs :: "aiNode \<Rightarrow> MeshInstanceList \<Rightarrow> error + MeshInstanceList"
  and countChildrenMeshs :: "aiNode list \<Rightarrow> MeshInstanceList \<Rightarrow> error + MeshInstanceList" where
  "countNodeMeshs (AiNode p nm tr ms cs) meshInstances =
     (case foldE (pushInstance (AiNode p nm tr ms cs)) ms meshInstances of
        Inl e \<Rightarrow> Inl e
      | Inr meshInstances' \<Rightarrow> countChildrenMeshs cs meshInstances')"
| "countChildrenMeshs [] meshInstances = Inr meshInstances"
| "countChildrenMeshs (c # cs) meshInstances =
     (case countNodeMeshs c meshInstances of
        Inl e \<Rightarrow> Inl e
      | Inr meshInstances' \<Rightarrow> countChildrenMeshs cs meshInstances')"

definition countMeshInstances :: "aiScene \<Rightarrow> error + MeshInstanceList" where
  "countMeshInstances pScene =
     countNodeMeshs (mRootNode pScene) (replicate (length (aiScene.mMeshes pScene)) [])"

text \<open>The inner loop of \<^verbatim>\<open>validateBones\<close> over the meshes of one bone; \<open>prev\<close> is the mesh
  of the step before, \<^verbatim>\<open>b.second[i - 1]\<close>, when \<^verbatim>\<open>i > 0\<close>.\<close>

fun checkBone :: "string \<Rightarrow> MeshInstanceList \<Rightarrow> nat list \<Rightarrow> nat option \<Rightarrow> error + unit" where
  "checkBone b meshInstances [] prev = Inr ()"
| "checkBone b meshInstances (m # rest) prev =
     (if length (meshInstances ! m) \<noteq> 1 then Inl (BoneMultipleInstances b)
      else if prev \<noteq> None \<and>
              mTransformation (meshInstances ! m ! 0) \<noteq>
              mTransformation (meshInstances ! the prev ! 0)
      then Inl (BoneDifferentWorldMatrices b)
      else checkBone b meshInstances rest (Some m))"

definition validateBones :: "aiScene \<Rightarrow> error + unit" where
  "validateBones pScene =
     (case countMeshInstances pScene of
        Inl e \<Rightarrow> Inl e
      | Inr meshInstances \<Rightarrow>
          foldE (\<lambda>b u. checkBone (fst b) meshInstances (snd b) None) (createBoneMap pScene) ())"

text \<open>\<^verbatim>\<open>validateScene\<close>: the warning is logged before the bones are validated.\<close>

definition validateScene :: "aiScene \<Rightarrow> warning list \<times> (error + unit)" where
  "validateScene pScene =
     (if 0 < mNumTextures pScene then [EmbeddedTextures (mNumTextures pScene)] else [],
      validateBones pScene)"











section \<open>Animations (lines 200-289)\<close>

text \<open>\<^verbatim>\<open>std::numeric_limits<double>::max()\<close>, the greatest finite double.\<close>

definition DBL_MAX :: real where
  "DBL_MAX = (2 ^ 53 - 1) * 2 ^ 971"

text \<open>\<^verbatim>\<open>aiCast\<close> of a vector and of a quaternion (lines 94-102) copy the components; a
  quaternion is \<open>(w, x, y, z)\<close> on both sides.\<close>

definition aiCast_vec :: "aiVector3D \<Rightarrow> float3" where
  "aiCast_vec val = (case val of (x, y, z) \<Rightarrow> (x, y, z))"

definition aiCast_quat :: "aiQuaternion \<Rightarrow> quat" where
  "aiCast_quat q = (case q of (w, x, y, z) \<Rightarrow> (w, x, y, z))"

text \<open>\<^verbatim>\<open>parseAnimationChannel\<close> (lines 209-221): the answer is the returned flag, the
  cursor and the value, the last two passed by reference in the source.\<close>

definition parseAnimationChannel ::
  "('a \<Rightarrow> 'b) \<Rightarrow> 'a aiKey list \<Rightarrow> real \<Rightarrow> nat \<Rightarrow> 'b \<Rightarrow> bool \<times> nat \<times> 'b" where
  "parseAnimationChannel cast pKeys t currentIndex falcor =
     (if length pKeys \<le> currentIndex then (True, currentIndex, falcor)
      else if mTime (pKeys ! currentIndex) = t
      then (length pKeys \<le> Suc currentIndex, Suc currentIndex,
            cast (mValue (pKeys ! currentIndex)))
      else (length pKeys \<le> currentIndex, currentIndex, falcor))"

text \<open>The lambda \<^verbatim>\<open>resetTime\<close> (lines 225-229). It reads \<^verbatim>\<open>keys[0]\<close> whatever the count
  is: on an empty array this is a read out of bounds.\<close>

definition resetTime :: "bool \<Rightarrow> 'v aiKey list \<Rightarrow> error + 'v aiKey list" where
  "resetTime asserts keys =
     (if 1 < length keys \<and> asserts \<and> \<not> 0 \<le> mTime (keys ! 1) then Inl AssertionFailed
      else if keys = [] then Inl OutOfBounds
      else if mTime (keys ! 0) < 0 then Inr (keys[0 := (keys ! 0)\<lparr>mTime := 0\<rparr>])
      else Inr keys)"

text \<open>\<^verbatim>\<open>resetNegativeKeyframeTimes\<close> writes into the channel it is given; the answer is
  the channel as it is afterwards.\<close>

definition resetNegativeKeyframeTimes :: "bool \<Rightarrow> aiNodeAnim \<Rightarrow> error + aiNodeAnim" where
  "resetNegativeKeyframeTimes asserts pAiNode =
     (case resetTime asserts (mPositionKeys pAiNode) of
        Inl e \<Rightarrow> Inl e
      | Inr pk \<Rightarrow>
          (case resetTime asserts (mRotationKeys pAiNode) of
             Inl e \<Rightarrow> Inl e
           | Inr rk \<Rightarrow>
               (case resetTime asserts (mScalingKeys pAiNode) of
                  Inl e \<Rightarrow> Inl e
                | Inr sk \<Rightarrow>
                    Inr (pAiNode\<lparr>mPositionKeys := pk, mRotationKeys := rk,
                           mScalingKeys := sk\<rparr>))))"

text \<open>The rate of an animation (lines 239-242).\<close>

definition ticksPerSecond :: "aiAnimation \<Rightarrow> ImportMode \<Rightarrow> real" where
  "ticksPerSecond pAiAnim importMode =
     (if importMode = GLTF2 then 1000
      else if mTicksPerSecond pAiAnim \<noteq> 0 then mTicksPerSecond pAiAnim else 25)"

text \<open>The lambda \<^verbatim>\<open>nextKeyTime\<close> (lines 266-274), without its assertion, which is the
  first test of \<open>mergeStep\<close>.\<close>

definition nextKeyTime :: "aiNodeAnim \<Rightarrow> nat \<Rightarrow> nat \<Rightarrow> nat \<Rightarrow> real" where
  "nextKeyTime pAiNode pos rot scale =
     (let t0 = - DBL_MAX;
          t1 = (if pos < length (mPositionKeys pAiNode)
                then max t0 (mTime (mPositionKeys pAiNode ! pos)) else t0);
          t2 = (if rot < length (mRotationKeys pAiNode)
                then max t1 (mTime (mRotationKeys pAiNode ! rot)) else t1);
          t3 = (if scale < length (mScalingKeys pAiNode)
                then max t2 (mTime (mScalingKeys pAiNode ! scale)) else t2)
      in t3)"

text \<open>The state of the merge loop: the three cursors and the keyframe that is updated in
  place. One turn of the loop (lines 278-286) answers \<^verbatim>\<open>done\<close>, the new state, and the
  keyframe it hands to every animation of the channel.\<close>

type_synonym mergeState = "nat \<times> nat \<times> nat \<times> Keyframe"

definition mergeStep ::
  "bool \<Rightarrow> real \<Rightarrow> aiNodeAnim \<Rightarrow> mergeState \<Rightarrow> error + (bool \<times> mergeState)" where
  "mergeStep asserts tps pAiNode st =
     (case st of (pos, rot, scale, keyframe) \<Rightarrow>
        let t = nextKeyTime pAiNode pos rot scale in
        if asserts \<and> t = - DBL_MAX then Inl AssertionFailed
        else if asserts \<and> \<not> (t = 0 \<or> time keyframe < t / tps) then Inl AssertionFailed
        else
          (case parseAnimationChannel aiCast_vec (mPositionKeys pAiNode) t pos
                  (translation keyframe) of
             (done1, pos', tr) \<Rightarrow>
               (case parseAnimationChannel aiCast_quat (mRotationKeys pAiNode) t rot
                       (rotation keyframe) of
                  (done2, rot', ro) \<Rightarrow>
                    (case parseAnimationChannel aiCast_vec (mScalingKeys pAiNode) t scale
                            (scaling keyframe) of
                       (done3, scale', sc) \<Rightarrow>
                         Inr (done3 \<and> (done2 \<and> done1),
                              (pos', rot', scale',
                               \<lparr> time = t / tps, translation = tr, scaling = sc,
                                 rotation = ro \<rparr>))))))"

text \<open>The loop \<^verbatim>\<open>while (!done)\<close>. It need not end; the value \<open>None\<close> is a loop that does
  not. The keyframes handed out so far are \<open>out\<close>.

  Modelled from the spec: \<^verbatim>\<open>Animation::addKeyframe\<close> is declared outside the repository; it
  appends the keyframe to the ordered keyframes of the animation.\<close>

partial_function (option) mergeLoop ::
  "bool \<Rightarrow> real \<Rightarrow> aiNodeAnim \<Rightarrow> mergeState \<Rightarrow> Keyframe list \<Rightarrow> (error + Keyframe list) option" where
  "mergeLoop asserts tps pAiNode st out =
     (case mergeStep asserts tps pAiNode st of
        Inl e \<Rightarrow> Some (Inl e)
      | Inr r \<Rightarrow>
          if fst r then Some (Inr (out @ [snd (snd (snd (snd r)))]))
          else mergeLoop asserts tps pAiNode (snd r) (out @ [snd (snd (snd (snd r)))]))"

text \<open>A channel whose position keys are at the times 0 and 1, whose rotation keys are at
  0 and 2 and whose only scaling key is at 0: every array ascends.\<close>

definition zigzagChannel :: aiNodeAnim where
  "zigzagChannel = \<lparr> mNodeName = ''arm'',
     mPositionKeys = [\<lparr> mTime = 0, mValue = (10, 0, 0) \<rparr>, \<lparr> mTime = 1, mValue = (11, 0, 0) \<rparr>],
     mRotationKeys = [\<lparr> mTime = 0, mValue = (1, 0, 0, 0) \<rparr>, \<lparr> mTime = 2, mValue = (0, 1, 0, 0) \<rparr>],
     mScalingKeys = [\<lparr> mTime = 0, mValue = (1, 1, 1) \<rparr>] \<rparr>"

definition keyframe0 :: Keyframe where
  "keyframe0 = \<lparr> time = 0, translation = (0, 0, 0), scaling = (1, 1, 1), rotation = (1, 0, 0, 0) \<rparr>"

text \<open>A loop whose body can fail or not return.\<close>

fun foldEO :: "('a \<Rightarrow> 's \<Rightarrow> (error + 's) option) \<Rightarrow> 'a list \<Rightarrow> 's \<Rightarrow> (error + 's) option" where
  "foldEO f [] s = Some (Inr s)"
| "foldEO f (x # xs) s =
     (case f x s of
        None \<Rightarrow> None
      | Some (Inl e) \<Rightarrow> Some (Inl e)
      | Some (Inr s') \<Rightarrow> foldEO f xs s')"

text \<open>The loop that creates one animation for every node instance of the channel's name
  (lines 250-260). Modelled from the spec: \<^verbatim>\<open>Animation::create\<close> is declared outside the
  repository; it makes an animation of the given name, node and duration that has no
  keyframe yet.\<close>

definition createInstanceAnimations ::
  "'pm ImporterData \<Rightarrow> string \<Rightarrow> real \<Rightarrow> error + Animation list" where
  "createInstanceAnimations data nodeName durationInSeconds =
     (case getNodeInstanceCount data nodeName of
        Inl e \<Rightarrow> Inl e
      | Inr n \<Rightarrow>
          foldE (\<lambda>i anims.
                   case getFalcorNodeID data nodeName i of
                     Inl e \<Rightarrow> Inl e
                   | Inr nodeID \<Rightarrow>
                       Inr (anims @ [\<lparr> animName = nodeName @ ''.'' @ to_string i,
                                       animNodeID = nodeID, animDuration = durationInSeconds,
                                       keyframes = [] \<rparr>]))
            [0..<n] [])"

text \<open>The body of the loop over the channels (lines 247-287). The state is the channels
  as the loop has left them so far, and the importer's data. Every keyframe of the merge
  goes to every animation of the channel.\<close>

definition createChannel ::
  "bool \<Rightarrow> Keyframe \<Rightarrow> real \<Rightarrow> real \<Rightarrow> aiNodeAnim \<Rightarrow> aiNodeAnim list \<times> 'pm ImporterData
     \<Rightarrow> (error + aiNodeAnim list \<times> 'pm ImporterData) option" where
  "createChannel asserts kf0 tps durationInSeconds pAiNode0 st =
     (case resetNegativeKeyframeTimes asserts pAiNode0 of
        Inl e \<Rightarrow> Some (Inl e)
      | Inr pAiNode \<Rightarrow>
          (case createInstanceAnimations (snd st) (mNodeName pAiNode) durationInSeconds of
             Inl e \<Rightarrow> Some (Inl e)
           | Inr anims \<Rightarrow>
               (case mergeLoop asserts tps pAiNode (0, 0, 0, kf0) [] of
                  None \<Rightarrow> None
                | Some (Inl e) \<Rightarrow> Some (Inl e)
                | Some (Inr kfs) \<Rightarrow>
                    Some (Inr (fst st @ [pAiNode],
                      (snd st)\<lparr>builder :=
                         fold addAnimation (map (\<lambda>a. a\<lparr>keyframes := kfs\<rparr>) anims)
                           (builder (snd st))\<rparr>)))))"

text \<open>\<^verbatim>\<open>createAnimation\<close> and \<^verbatim>\<open>createAnimations\<close>: the answer holds the animation, and the
  scene, as the calls leave them. \<open>kf0\<close> is a default-constructed keyframe.\<close>

definition createAnimation ::
  "bool \<Rightarrow> Keyframe \<Rightarrow> 'pm ImporterData \<Rightarrow> aiAnimation \<Rightarrow> ImportMode
     \<Rightarrow> (error + aiAnimation \<times> 'pm ImporterData) option" where
  "createAnimation asserts kf0 data pAiAnim importMode =
     (case FALCOR_ASSERT asserts (mNumMeshChannels pAiAnim = 0) of
        Inl e \<Rightarrow> Some (Inl e)
      | Inr u \<Rightarrow>
          (case foldEO (createChannel asserts kf0 (ticksPerSecond pAiAnim importMode)
                          (mDuration pAiAnim / ticksPerSecond pAiAnim importMode))
                  (mChannels pAiAnim) ([], data) of
             None \<Rightarrow> None
           | Some (Inl e) \<Rightarrow> Some (Inl e)
           | Some (Inr r) \<Rightarrow> Some (Inr (pAiAnim\<lparr>mChannels := fst r\<rparr>, snd r))))"

definition createAnimations ::
  "bool \<Rightarrow> Keyframe \<Rightarrow> ImportMode \<Rightarrow> aiScene \<Rightarrow> 'pm ImporterData
     \<Rightarrow> (error + aiScene \<times> 'pm ImporterData) option" where
  "createAnimations asserts kf0 importMode pScene data =
     (case foldEO (\<lambda>pAiAnim st.
                     case createAnimation asserts kf0 (snd st) pAiAnim importMode of
                       None \<Rightarrow> None
                     | Some (Inl e) \<Rightarrow> Some (Inl e)
                     | Some (Inr r) \<Rightarrow> Some (Inr (fst st @ [fst r], snd r)))
             (mAnimations pScene) ([], data) of
        None \<Rightarrow> None
      | Some (Inl e) \<Rightarrow> Some (Inl e)
      | Some (Inr r) \<Rightarrow> Some (Inr (pScene\<lparr>mAnimations := fst r\<rparr>, snd r)))"

text \<open>The times of all keys of a channel, and the cursors of a merge state that have not
  reached the end of their array.\<close>

definition keyTimes :: "aiNodeAnim \<Rightarrow> real set" where
  "keyTimes pAiNode =
     mTime ` set (mPositionKeys pAiNode) \<union> mTime ` set (mRotationKeys pAiNode) \<union>
     mTime ` set (mScalingKeys pAiNode)"

definition keysLeft :: "aiNodeAnim \<Rightarrow> mergeState \<Rightarrow> nat" where
  "keysLeft pAiNode st =
     (case st of (pos, rot, scale, keyframe) \<Rightarrow>
        (length (mPositionKeys pAiNode) - pos) + (length (mRotationKeys pAiNode) - rot) +
        (length (mScalingKeys pAiNode) - scale))"

text \<open>A key array with the time of its first key raised to zero when it is negative, and
  a channel and an animation with all their key arrays so.\<close>

definition clampFirst :: "'v aiKey list \<Rightarrow> 'v aiKey list" where
  "clampFirst keys = (case keys of [] \<Rightarrow> [] | k # ks \<Rightarrow> k\<lparr>mTime := max 0 (mTime k)\<rparr> # ks)"

definition clampChannel :: "aiNodeAnim \<Rightarrow> aiNodeAnim" where
  "clampChannel pAiNode =
     pAiNode\<lparr>mPositionKeys := clampFirst (mPositionKeys pAiNode),
             mRotationKeys := clampFirst (mRotationKeys pAiNode),
             mScalingKeys := clampFirst (mScalingKeys pAiNode)\<rparr>"

definition clampAnimation :: "aiAnimation \<Rightarrow> aiAnimation" where
  "clampAnimation pAiAnim = pAiAnim\<lparr>mChannels := map clampChannel (mChannels pAiAnim)\<rparr>"

section \<open>The scene graph (lines 618-713) and the import (lines 1036-1065)\<close>

definition createBoneList :: "aiScene \<Rightarrow> 'pm ImporterData \<Rightarrow> 'pm ImporterData" where
  "createBoneList pScene data =
     data\<lparr>localToBindPoseMatrices :=
       fold (\<lambda>pMesh boneMatrices.
               fold (\<lambda>pBone boneMatrices.
                       boneMatrices(aiBone.mName pBone \<mapsto> mOffsetMatrix pBone))
                 (mBones pMesh) boneMatrices)
         (aiScene.mMeshes pScene) (localToBindPoseMatrices data)\<rparr>"

definition isBone :: "'pm ImporterData \<Rightarrow> string \<Rightarrow> bool" where
  "isBone data nm = (localToBindPoseMatrices data nm \<noteq> None)"

definition getLocalToBindPoseMatrix :: "'pm ImporterData \<Rightarrow> string \<Rightarrow> mat4" where
  "getLocalToBindPoseMatrix data nm =
     (case localToBindPoseMatrices data nm of Some m \<Rightarrow> m | None \<Rightarrow> mat4_identity)"

definition addAiNode ::
  "bool \<Rightarrow> nat \<Rightarrow> string \<Rightarrow> NodeID \<Rightarrow> 'pm ImporterData \<Rightarrow> error + 'pm ImporterData" where
  "addAiNode asserts pNode nm falcorNodeID data =
     (case FALCOR_ASSERT asserts (mAiToFalcorNodeID data pNode = None) of
        Inl e \<Rightarrow> Inl e
      | Inr u \<Rightarrow>
          Inr (data\<lparr>mAiToFalcorNodeID := (mAiToFalcorNodeID data)(pNode \<mapsto> falcorNodeID),
                 mAiNodes := (mAiNodes data)(nm \<mapsto>
                   (case mAiNodes data nm of None \<Rightarrow> [] | Some ps \<Rightarrow> ps) @ [pNode])\<rparr>))"

text \<open>\<^verbatim>\<open>parseNode\<close>: the parent pointer of the node is the parameter \<open>pParent\<close>.\<close>

fun parseNode ::
  "bool \<Rightarrow> 'pm ImporterData \<Rightarrow> aiNode \<Rightarrow> nat option \<Rightarrow> bool \<Rightarrow> error + 'pm ImporterData"
  and parseChildren ::
  "bool \<Rightarrow> 'pm ImporterData \<Rightarrow> aiNode list \<Rightarrow> nat option \<Rightarrow> bool \<Rightarrow> error + 'pm ImporterData" where
  "parseNode asserts data (AiNode p nm tr ms cs) pParent hasBoneAncestor =
     (case FALCOR_ASSERT asserts (isBone data nm = False \<or> ms = []) of
        Inl e \<Rightarrow> Inl e
      | Inr u \<Rightarrow>
          (case (case pParent of
                   None \<Rightarrow> Inr kInvalidID
                 | Some pp \<Rightarrow> getFalcorNodeID_ptr data pp) of
             Inl e \<Rightarrow> Inl e
           | Inr parentID \<Rightarrow>
               (case addNode \<lparr> name = nm, parent = parentID, transform = tr,
                                localToBindPose = getLocalToBindPoseMatrix data nm \<rparr>
                       (builder data) of
                  (nodeID, b) \<Rightarrow>
                    (case addAiNode asserts p nm nodeID (data\<lparr>builder := b\<rparr>) of
                       Inl e \<Rightarrow> Inl e
                     | Inr data' \<Rightarrow>
                         parseChildren asserts data' cs (Some p)
                           (isBone data nm \<or> hasBoneAncestor)))))"
| "parseChildren asserts data [] pParent hasBoneAncestor = Inr data"
| "parseChildren asserts data (c # cs) pParent hasBoneAncestor =
     (case parseNode asserts data c pParent hasBoneAncestor of
        Inl e \<Rightarrow> Inl e
      | Inr data' \<Rightarrow> parseChildren asserts data' cs pParent hasBoneAncestor)"

definition createSceneGraph :: "bool \<Rightarrow> aiScene \<Rightarrow> 'pm ImporterData \<Rightarrow> error + 'pm ImporterData" where
  "createSceneGraph asserts pScene data =
     (case FALCOR_ASSERT asserts
             (isBone (createBoneList pScene data) (aiNode.mName (mRootNode pScene)) = False) of
        Inl e \<Rightarrow> Inl e
      | Inr u \<Rightarrow> parseNode asserts (createBoneList pScene data) (mRootNode pScene) None False)"

text \<open>The stages of \<^verbatim>\<open>AssimpImporter::import\<close> after the file is read, in its order:
  validation, the scene graph, the meshes, the mesh instances, the animations. The
  materials, cameras and lights, which read the scene through pointers to constants and
  feed the builder, are not part of the model. The answer is the scene and the
  importer's data as the import leaves them.\<close>

definition importScene ::
  "bool \<Rightarrow> nat list \<Rightarrow> (aiMesh \<Rightarrow> error + 'pm) \<Rightarrow> 'pm \<Rightarrow> Keyframe \<Rightarrow> ImportMode \<Rightarrow> aiScene
     \<Rightarrow> 'pm ImporterData \<Rightarrow> (error + aiScene \<times> 'pm ImporterData) option" where
  "importScene asserts sched processMesh pm0 kf0 importMode pScene data =
     (case snd (validateScene pScene) of
        Inl e \<Rightarrow> Some (Inl e)
      | Inr u \<Rightarrow>
          (case createSceneGraph asserts pScene data of
             Inl e \<Rightarrow> Some (Inl e)
           | Inr data1 \<Rightarrow>
               (case createMeshes sched processMesh pm0 pScene data1 of
                  Inl e \<Rightarrow> Some (Inl e)
                | Inr r \<Rightarrow>
                    (case addMeshInstances (snd r) (mRootNode pScene) of
                       Inl e \<Rightarrow> Some (Inl e)
                     | Inr data3 \<Rightarrow> createAnimations asserts kf0 importMode pScene data3))))"

section \<open>The mesh filter: what is kept and what is skipped\<close>

lemma filterMeshes_acc:
  "filterMeshes ms warns meshes =
     (warns @ map filterWarning (filter (\<lambda>m. \<not> passesFilter m) ms),
      meshes @ filter passesFilter ms)"
  by (induction ms arbitrary: warns meshes)
     (simp_all add: HasFaces_def passesFilter_def filterWarning_def)



section \<open>Skin weights: slot assignment and normalization\<close>




















lemma replicate_numeral: "replicate (numeral k) x = x # replicate (pred_numeral k) x"
  by (simp add: numeral_eq_Suc)

lemma list_update_numeral: "(x # xs)[numeral k := y] = x # xs[pred_numeral k := y]"
  by (simp add: numeral_eq_Suc)

lemma normalizeWeights_4:
  "normalizeWeights [a, b, c, d] =
     [fdiv a (a + b + c + d), fdiv b (a + b + c + d), fdiv c (a + b + c + d),
      fdiv d (a + b + c + d)]"
  by (simp add: normalizeWeights_def kMaxBonesPerVertex_def eval_nat_numeral upt_rec Let_def)

lemmas skin_eval = loadBones_def skinMesh_def skinData_def loadBone_def getNodeInstanceCount_def
  getFalcorNodeID_def getFalcorNodeID_ptr_def FALCOR_ASSERT_def applyWeight_def
  assignSlot.simps kMaxBonesPerVertex_def kInvalidID_def normalizeWeights_4 fdiv_def
  replicate_numeral list_update_numeral


text \<open>C9 fails on the code. In \<open>skinMesh\<close> no bone weights vertex 1 with a weight other
  than zero. The last loop of \<open>loadBones\<close> runs over every vertex: for vertex 1 the sum
  of the slots is 0 and each slot, 0, is divided by it. The four weights of vertex 1
  are not 0 afterwards but the result of 0 / 0, with assertions compiled in or not.\<close>

theorem loadBones_unweighted_vertex_nan:
  "loadBones True skinMesh skinData =
     Inr ([], [[Finite (1 / 4), Finite (3 / 4), Finite 0, Finite 0], [NaN, NaN, NaN, NaN]],
          [[5, 6, kInvalidID, kInvalidID], [kInvalidID, kInvalidID, kInvalidID, kInvalidID]]) \<and>
   loadBones False skinMesh skinData =
     Inr ([], [[Finite (1 / 4), Finite (3 / 4), Finite 0, Finite 0], [NaN, NaN, NaN, NaN]],
          [[5, 6, kInvalidID, kInvalidID], [kInvalidID, kInvalidID, kInvalidID, kInvalidID]])"
  by (simp add: skin_eval)

section \<open>Committing the meshes: order and identifiers\<close>


lemma for_each_par_Inr:
  "for_each_par sched task rs = Inr rs' \<longleftrightarrow>
     (\<forall>i\<in>set sched. \<not> isl (task i)) \<and>
     rs' = fold (\<lambda>i rs. rs[i := projr (task i)]) sched rs"
proof (induction sched arbitrary: rs)
  case Nil
  show ?case by auto
next
  case (Cons i sched)
  show ?case
  proof (cases "task i")
    case (Inl e)
    then show ?thesis by simp
  next
    case (Inr pm)
    then show ?thesis using Cons.IH [of "rs[i := pm]"] by simp
  qed
qed

lemma fold_update_length:
  "length (fold (\<lambda>i rs. rs[i := g i]) sched rs) = length rs"
  by (induction sched arbitrary: rs) simp_all

lemma fold_update_nth:
  "k < length rs \<Longrightarrow>
   fold (\<lambda>i rs. rs[i := g i]) sched rs ! k = (if k \<in> set sched then g k else rs ! k)"
proof (induction sched arbitrary: rs)
  case Nil
  show ?case by simp
next
  case (Cons i sched)
  have "fold (\<lambda>i rs. rs[i := g i]) sched (rs[i := g i]) ! k =
      (if k \<in> set sched then g k else rs[i := g i] ! k)"
    using Cons.IH [of "rs[i := g i]"] Cons.prems by simp
  then show ?case using Cons.prems by (auto simp: nth_list_update)
qed

lemma fold_update_all:
  assumes "set sched = {0..<n}" and "length rs = n"
  shows "fold (\<lambda>i rs. rs[i := g i]) sched rs = map g [0..<n]"
proof (rule nth_equalityI)
  show "length (fold (\<lambda>i rs. rs[i := g i]) sched rs) = length (map g [0..<n])"
    using assms by (simp add: fold_update_length)
next
  fix k assume "k < length (fold (\<lambda>i rs. rs[i := g i]) sched rs)"
  then have k: "k < n" using assms by (simp add: fold_update_length)
  then show "fold (\<lambda>i rs. rs[i := g i]) sched rs ! k = map g [0..<n] ! k"
    using assms by (simp add: fold_update_nth)
qed

lemma for_each_par_permutation:
  assumes "set sched = {0..<length meshes}"
  shows "for_each_par sched (\<lambda>i. processMesh (meshes ! i)) (replicate (length meshes) pm0) =
     (if \<exists>m\<in>set meshes. isl (processMesh m)
      then Inl (projl (for_each_par sched (\<lambda>i. processMesh (meshes ! i))
                 (replicate (length meshes) pm0)))
      else Inr (map (\<lambda>m. projr (processMesh m)) meshes))"
proof -
  let ?r = "for_each_par sched (\<lambda>i. processMesh (meshes ! i)) (replicate (length meshes) pm0)"
  have all: "(\<forall>i\<in>set sched. \<not> isl (processMesh (meshes ! i))) \<longleftrightarrow>
      \<not> (\<exists>m\<in>set meshes. isl (processMesh m))"
  proof
    assume l: "\<forall>i\<in>set sched. \<not> isl (processMesh (meshes ! i))"
    show "\<not> (\<exists>m\<in>set meshes. isl (processMesh m))"
    proof
      assume "\<exists>m\<in>set meshes. isl (processMesh m)"
      then obtain i where "i < length meshes" "isl (processMesh (meshes ! i))"
        by (auto simp: in_set_conv_nth)
      with l assms show False by simp
    qed
  next
    assume r: "\<not> (\<exists>m\<in>set meshes. isl (processMesh m))"
    show "\<forall>i\<in>set sched. \<not> isl (processMesh (meshes ! i))"
    proof
      fix i assume "i \<in> set sched"
      then have "meshes ! i \<in> set meshes" using assms by simp
      with r show "\<not> isl (processMesh (meshes ! i))" by blast
    qed
  qed
  show ?thesis
  proof (cases ?r)
    case (Inl e)
    then have "\<not> (\<forall>i\<in>set sched. \<not> isl (processMesh (meshes ! i)))"
      using for_each_par_Inr [of sched "\<lambda>i. processMesh (meshes ! i)"
          "replicate (length meshes) pm0"] by auto
    with all Inl show ?thesis by simp
  next
    case (Inr rs')
    then have a: "\<forall>i\<in>set sched. \<not> isl (processMesh (meshes ! i))"
      and b: "rs' = fold (\<lambda>i rs. rs[i := projr (processMesh (meshes ! i))]) sched
                 (replicate (length meshes) pm0)"
      using for_each_par_Inr [of sched "\<lambda>i. processMesh (meshes ! i)"
          "replicate (length meshes) pm0" rs'] by simp_all
    have "rs' = map (\<lambda>i. projr (processMesh (meshes ! i))) [0..<length meshes]"
      unfolding b using assms by (intro fold_update_all) simp_all
    also have "\<dots> = map (\<lambda>m. projr (processMesh m)) meshes"
      by (intro nth_equalityI) simp_all
    finally show ?thesis using Inr a all by simp
  qed
qed

lemma commitMeshes_builder:
  "builder (commitMeshes pms i data) =
     (builder data)\<lparr>sbMeshes := sbMeshes (builder data) @ pms\<rparr>"
  by (induction pms arbitrary: i data) (simp_all add: addProcessedMesh_def)

lemma commitMeshes_meshMap:
  "meshMap (commitMeshes pms i data) k =
     (if i \<le> k \<and> k < i + length pms then Some (length (sbMeshes (builder data)) + (k - i))
      else meshMap data k)"
proof (induction pms arbitrary: i data)
  case Nil
  show ?case by auto
next
  case (Cons pm pms)
  let ?d = "data\<lparr>builder := (builder data)\<lparr>sbMeshes := sbMeshes (builder data) @ [pm]\<rparr>,
      meshMap := (meshMap data)(i \<mapsto> length (sbMeshes (builder data)))\<rparr>"
  have "meshMap (commitMeshes (pm # pms) i data) k = meshMap (commitMeshes pms (Suc i) ?d) k"
    by (simp add: addProcessedMesh_def)
  also have "\<dots> = (if Suc i \<le> k \<and> k < Suc i + length pms
      then Some (length (sbMeshes (builder ?d)) + (k - Suc i)) else meshMap ?d k)"
    by (rule Cons.IH)
  also have "\<dots> = (if i \<le> k \<and> k < i + length (pm # pms)
      then Some (length (sbMeshes (builder data)) + (k - i)) else meshMap data k)"
  proof (cases "k = i")
    case True
    then show ?thesis by simp
  next
    case False
    then show ?thesis by (cases "i < k") auto
  qed
  finally show ?case .
qed


lemma createMeshes_cases:
  assumes "sort sched = [0..<length (filter passesFilter (aiScene.mMeshes pScene))]"
  shows "(if \<exists>m\<in>set (filter passesFilter (aiScene.mMeshes pScene)). isl (processMesh m)
      then isl (createMeshes sched processMesh pm0 pScene data)
      else createMeshes sched processMesh pm0 pScene data =
        Inr (map filterWarning (filter (\<lambda>m. \<not> passesFilter m) (aiScene.mMeshes pScene)),
             commitMeshes (map (\<lambda>m. projr (processMesh m))
                (filter passesFilter (aiScene.mMeshes pScene))) 0 data))"
proof -
  define kept where "kept = filter passesFilter (aiScene.mMeshes pScene)"
  define W where "W = map filterWarning (filter (\<lambda>m. \<not> passesFilter m) (aiScene.mMeshes pScene))"
  define F where "F = for_each_par sched (\<lambda>i. processMesh (kept ! i)) (replicate (length kept) pm0)"
  have "set sched = set (sort sched)" by simp
  also have "\<dots> = {0..<length kept}" unfolding assms kept_def by simp
  finally have s: "set sched = {0..<length kept}" .
  have "filterMeshes (aiScene.mMeshes pScene) [] [] = (W, kept)"
    unfolding W_def kept_def by (simp add: filterMeshes_acc)
  then have cm: "createMeshes sched processMesh pm0 pScene data =
      (case F of Inl e \<Rightarrow> Inl e | Inr pms \<Rightarrow> Inr (W, commitMeshes pms 0 data))"
    unfolding F_def by (simp add: createMeshes_def)
  have fp: "F = (if \<exists>m\<in>set kept. isl (processMesh m) then Inl (projl F)
      else Inr (map (\<lambda>m. projr (processMesh m)) kept))"
    unfolding F_def by (rule for_each_par_permutation [OF s])
  have "if \<exists>m\<in>set kept. isl (processMesh m)
      then isl (createMeshes sched processMesh pm0 pScene data)
      else createMeshes sched processMesh pm0 pScene data =
        Inr (W, commitMeshes (map (\<lambda>m. projr (processMesh m)) kept) 0 data)"
  proof (cases "\<exists>m\<in>set kept. isl (processMesh m)")
    case True
    with fp have "F = Inl (projl F)" by simp
    then have "createMeshes sched processMesh pm0 pScene data = Inl (projl F)"
      using cm by (cases F) simp_all
    with True show ?thesis by simp
  next
    case False
    with fp have "F = Inr (map (\<lambda>m. projr (processMesh m)) kept)" by simp
    then have "createMeshes sched processMesh pm0 pScene data =
        Inr (W, commitMeshes (map (\<lambda>m. projr (processMesh m)) kept) 0 data)"
      using cm by simp
    with False show ?thesis by simp
  qed
  then show ?thesis unfolding kept_def W_def .
qed

text \<open>C5. Let \<open>sched\<close> and \<open>sched'\<close> be two orders in which the tasks of the parallel loop
  complete, each a permutation of the indices of the filtered meshes. The import fails
  under one if and only if it fails under the other (some task failed). When it succeeds
  under \<open>sched\<close>, it succeeds under \<open>sched'\<close> with the same warnings and the same
  importer data: the builder's meshes are the old ones followed by the processed meshes
  in the order of the external mesh list, and the mesh added for position \<open>i\<close> has the
  identifier \<open>i\<close> places after the builder's former mesh count.\<close>

theorem createMeshes_commit_order:
  "sort sched = [0..<length (filter passesFilter (aiScene.mMeshes pScene))] \<and>
   sort sched' = [0..<length (filter passesFilter (aiScene.mMeshes pScene))] \<longrightarrow>
     (isl (createMeshes sched processMesh pm0 pScene data) \<longleftrightarrow>
      isl (createMeshes sched' processMesh pm0 pScene data)) \<and>
     (createMeshes sched processMesh pm0 pScene data = Inr (warns, data') \<longrightarrow>
        createMeshes sched' processMesh pm0 pScene data = Inr (warns, data') \<and>
        sbMeshes (builder data') =
          sbMeshes (builder data) @
            map (\<lambda>m. projr (processMesh m)) (filter passesFilter (aiScene.mMeshes pScene)) \<and>
        (\<forall>i<length (filter passesFilter (aiScene.mMeshes pScene)).
           meshMap data' i = Some (length (sbMeshes (builder data)) + i)))"
proof (intro impI)
  assume a: "sort sched = [0..<length (filter passesFilter (aiScene.mMeshes pScene))] \<and>
   sort sched' = [0..<length (filter passesFilter (aiScene.mMeshes pScene))]"
  define kept where "kept = filter passesFilter (aiScene.mMeshes pScene)"
  define W where "W = map filterWarning (filter (\<lambda>m. \<not> passesFilter m) (aiScene.mMeshes pScene))"
  define C where "C = commitMeshes (map (\<lambda>m. projr (processMesh m)) kept) 0 data"
  define R where "R = createMeshes sched processMesh pm0 pScene data"
  define R' where "R' = createMeshes sched' processMesh pm0 pScene data"
  have 1: "if \<exists>m\<in>set kept. isl (processMesh m) then isl R else R = Inr (W, C)"
    unfolding kept_def W_def C_def R_def using a by (intro createMeshes_cases) simp
  have 2: "if \<exists>m\<in>set kept. isl (processMesh m) then isl R' else R' = Inr (W, C)"
    unfolding kept_def W_def C_def R'_def using a by (intro createMeshes_cases) simp
  have cb: "sbMeshes (builder C) = sbMeshes (builder data) @ map (\<lambda>m. projr (processMesh m)) kept"
    unfolding C_def by (simp add: commitMeshes_builder)
  have cm: "\<forall>i<length kept. meshMap C i = Some (length (sbMeshes (builder data)) + i)"
    unfolding C_def by (simp add: commitMeshes_meshMap)
  have "(isl R \<longleftrightarrow> isl R') \<and>
     (R = Inr (warns, data') \<longrightarrow>
        R' = Inr (warns, data') \<and>
        sbMeshes (builder data') = sbMeshes (builder data) @ map (\<lambda>m. projr (processMesh m)) kept \<and>
        (\<forall>i<length kept. meshMap data' i = Some (length (sbMeshes (builder data)) + i)))"
  proof (cases "\<exists>m\<in>set kept. isl (processMesh m)")
    case True
    with 1 2 have "isl R" "isl R'" by simp_all
    then show ?thesis by auto
  next
    case False
    with 1 2 have "R = Inr (W, C)" "R' = Inr (W, C)" by simp_all
    with cb cm show ?thesis by auto
  qed
  then show "(isl (createMeshes sched processMesh pm0 pScene data) \<longleftrightarrow>
      isl (createMeshes sched' processMesh pm0 pScene data)) \<and>
     (createMeshes sched processMesh pm0 pScene data = Inr (warns, data') \<longrightarrow>
        createMeshes sched' processMesh pm0 pScene data = Inr (warns, data') \<and>
        sbMeshes (builder data') =
          sbMeshes (builder data) @
            map (\<lambda>m. projr (processMesh m)) (filter passesFilter (aiScene.mMeshes pScene)) \<and>
        (\<forall>i<length (filter passesFilter (aiScene.mMeshes pScene)).
           meshMap data' i = Some (length (sbMeshes (builder data)) + i)))"
    unfolding kept_def R_def R'_def .
qed

lemmas mesh_eval = createMeshes_def shiftScene_def shiftData_def emptyMesh_def triMesh_def
  emptyBuilder_def HasFaces_def passesFilter_def addProcessedMesh_def
  createMeshes_then_instances_def getFalcorNodeID_ptr_def addInstancesOfMesh_def
  addMeshInstance_def




text \<open>C5, on the scene \<open>shiftScene 1\<close> with the completion orders 1, 0 and 0, 1.\<close>

theorem createMeshes_commit_order_witness:
  "sort [1, 0] = [0..<length (filter passesFilter (aiScene.mMeshes (shiftScene 1)))] \<and>
   sort [0, 1] = [0..<length (filter passesFilter (aiScene.mMeshes (shiftScene 1)))] \<and>
   \<not> isl (createMeshes [1, 0] (\<lambda>m. Inr (aiMesh.mName m)) [] (shiftScene 1) shiftData) \<and>
   createMeshes [0, 1] (\<lambda>m. Inr (aiMesh.mName m)) [] (shiftScene 1) shiftData =
     createMeshes [1, 0] (\<lambda>m. Inr (aiMesh.mName m)) [] (shiftScene 1) shiftData \<and>
   sbMeshes (builder (snd (projr
     (createMeshes [1, 0] (\<lambda>m. Inr (aiMesh.mName m)) [] (shiftScene 1) shiftData)))) =
     [''first'', ''second''] \<and>
   meshMap (snd (projr
     (createMeshes [1, 0] (\<lambda>m. Inr (aiMesh.mName m)) [] (shiftScene 1) shiftData))) 1 = Some 1"
proof -
  define r where "r = createMeshes [1, 0] (\<lambda>m. Inr (aiMesh.mName m)) [] (shiftScene 1) shiftData"
  define kept where "kept = filter passesFilter (aiScene.mMeshes (shiftScene 1))"
  have k: "kept = [triMesh ''first'', triMesh ''second'']"
    unfolding kept_def by (simp add: mesh_eval)
  have s: "sort [1, 0] = [0..<length kept]" "sort [0, 1] = [0..<length kept]"
    unfolding k by (simp_all add: numeral_2_eq_2)
  have ok: "\<not> isl r" unfolding r_def by (simp add: mesh_eval)
  then obtain w d where wd: "r = Inr (w, d)" by (cases r) auto
  have b0: "sbMeshes (builder shiftData) = []" by (simp add: mesh_eval)
  from s have p: "sort [1, 0] = [0..<length kept] \<and> sort [0, 1] = [0..<length kept]"
    by simp
  note q = createMeshes_commit_order [of "[1, 0]" "shiftScene 1" "[0, 1]"
      "\<lambda>m. Inr (aiMesh.mName m)" "[]" shiftData w d, THEN mp, OF p [unfolded kept_def]]
  note e = q [THEN conjunct2, THEN mp, OF wd [unfolded r_def]]
  from e have c: "createMeshes [0, 1] (\<lambda>m. Inr (aiMesh.mName m)) [] (shiftScene 1) shiftData = r"
    unfolding wd by (rule conjunct1)
  from e have m: "sbMeshes (builder d) =
      sbMeshes (builder shiftData) @ map (\<lambda>m. projr (Inr (aiMesh.mName m) :: error + string)) kept"
    unfolding kept_def by (elim conjE)
  from e have i: "\<forall>i<length kept. meshMap d i = Some (length (sbMeshes (builder shiftData)) + i)"
    unfolding kept_def by (elim conjE)
  from m have m': "sbMeshes (builder d) = [''first'', ''second'']"
    unfolding k b0 by (simp add: triMesh_def)
  from i have i': "meshMap d 1 = Some 1" unfolding k b0 by simp
  from s ok c m' i' show ?thesis unfolding kept_def r_def [symmetric] wd by simp
qed



section \<open>The mesh map after a skipped mesh\<close>

text \<open>C10 fails on the code. The commit loop stores the identifier of a mesh under its
  position among the filtered meshes, and \<open>addMeshInstances\<close> looks a node's mesh up
  under its index in the external mesh list. In \<open>shiftScene k\<close> the external mesh 0 has
  no faces and is skipped. A node that references the external mesh 1, named
  \<open>first\<close>, is bound to the mesh identifier 1, which is the processed mesh \<open>second\<close>;
  a node that references the external mesh 2, which passes the filter, makes the
  lookup fail.\<close>

theorem meshMap_keyed_by_filtered_position:
  "aiMesh.mName (aiScene.mMeshes (shiftScene 1) ! 1) = ''first'' \<and>
   map_sum id builder
     (createMeshes_then_instances [0, 1] (\<lambda>m. Inr (aiMesh.mName m)) [] (shiftScene 1) shiftData) =
     Inr \<lparr> sbNodes = [], sbMeshes = [''first'', ''second''], sbMeshInstances = [(0, 1)],
           sbAnimations = [] \<rparr> \<and>
   aiMesh.mName (aiScene.mMeshes (shiftScene 2) ! 2) = ''second'' \<and>
   passesFilter (aiScene.mMeshes (shiftScene 2) ! 2) \<and>
   createMeshes_then_instances [0, 1] (\<lambda>m. Inr (aiMesh.mName m)) [] (shiftScene 2) shiftData =
     Inl OutOfRange"
  by (simp add: mesh_eval)

section \<open>Instance expansion\<close>

lemma addInstances_other:
  "sbMeshes (addInstances i ms nodeID meshID b) = sbMeshes b \<and>
   sbAnimations (addInstances i ms nodeID meshID b) = sbAnimations b"
  by (induction ms arbitrary: i b) (simp_all add: addNode_def addMeshInstance_def)

lemma addInstances_nodes:
  "sbNodes (addInstances i ms nodeID meshID b) =
     sbNodes b @ map (\<lambda>(k, m). instanceNode nodeID k m)
       (filter (\<lambda>(k, m). m \<noteq> mat4_identity) (enumerate i ms))"
  by (induction ms arbitrary: i b) (simp_all add: addNode_def addMeshInstance_def)


lemma length_filter_zip:
  "length (filter (\<lambda>(k, m). P m) (enumerate i ms)) = length (filter P ms)"
  by (induction ms arbitrary: i) simp_all

lemma addInstances_node_count:
  "length (sbNodes (addInstances i ms nodeID meshID b)) = length (sbNodes b) + nonIdentity ms"
  by (simp add: addInstances_nodes nonIdentity_def length_filter_zip)















section \<open>Validation of the bones\<close>

































section \<open>The keyframe merge\<close>



end
